theory Spec2Isabelle
  imports Main "HOL-Library.AList" "HOL-Library.Char_ord" "HOL-Library.List_Lexorder"
begin

section \<open>Python strings\<close>

text \<open>
  A Python \<open>str\<close> is a \<open>string\<close>. The functions below are the string operations that
  \<open>cases.py\<close> uses: \<open>s.startswith(p)\<close>, \<open>sub in s\<close>, \<open>s.split(sep)\<close> for a
  one-character separator and \<open>sep.join(xs)\<close>.
\<close>

definition startswith :: "string \<Rightarrow> string \<Rightarrow> bool" where
  "startswith s p = (take (length p) s = p)"

fun contains :: "string \<Rightarrow> string \<Rightarrow> bool" where
  "contains sub [] = (sub = [])"
| "contains sub (c # cs) = (startswith (c # cs) sub \<or> contains sub cs)"

fun split :: "char \<Rightarrow> string \<Rightarrow> string list" where
  "split sep [] = [[]]"
| "split sep (c # cs) =
     (if c = sep then [] # split sep cs
      else (case split sep cs of
              [] \<Rightarrow> [[c]]
            | w # ws \<Rightarrow> (c # w) # ws))"

fun join :: "string \<Rightarrow> string list \<Rightarrow> string" where
  "join sep [] = []"
| "join sep [x] = x"
| "join sep (x # y # ys) = x @ sep @ join sep (y # ys)"

section \<open>Exceptions\<close>

text \<open>
  An exception is its class and its message. A message is the f-string that builds it,
  kept as its pieces: the literal text (\<open>Lit\<close>), an interpolated \<open>str\<close> value
  (\<open>Str\<close>), an interpolated \<open>str\<close> value that the f-string puts between single
  quotes (\<open>Quoted\<close>), and an interpolated list of \<open>str\<close>, which Python prints as
  the list's \<open>repr\<close> (\<open>StrList\<close>).
\<close>

datatype piece = Lit string | Str string | Quoted string | StrList "string list"

type_synonym message = "piece list"

datatype exn_class =
    ValueError
  | OSError
  | FileNotFoundError
  | FileExistsError
  | PermissionError
  | NotADirectoryError
  | RuntimeError
  | OtherException

datatype exn = Exn (exn_cls: exn_class) (exn_msg: message)

text \<open>\<open>isinstance(e, OSError)\<close>: the classes of Python's hierarchy below \<open>OSError\<close>.\<close>

fun is_OSError :: "exn_class \<Rightarrow> bool" where
  "is_OSError OSError = True"
| "is_OSError FileNotFoundError = True"
| "is_OSError FileExistsError = True"
| "is_OSError PermissionError = True"
| "is_OSError NotADirectoryError = True"
| "is_OSError _ = False"

section \<open>Path component validation\<close>

text \<open>
  \<open>_validate_path_component\<close> (cases.py, lines 454-474). It returns nothing and
  raises \<open>ValueError\<close> in three places, taken in the source's order.
\<close>

definition backslash :: char where
  "backslash = CHR 0x5C"

text \<open>A text between single quotes, for the literal parts of a message that have them.\<close>

definition sq :: "string \<Rightarrow> string" where
  "sq s = [CHR 0x27] @ s @ [CHR 0x27]"

definition validate_path_component :: "string \<Rightarrow> exn + unit" where
  "validate_path_component component =
     (if component = [] then
        Inl (Exn ValueError [Lit ''Path component cannot be empty''])
      else if contains ''..'' component \<or> contains ''/'' component
              \<or> contains [backslash] component then
        Inl (Exn ValueError
              [Lit ''Invalid path component: '', Quoted component,
               Lit '' contains path separators or '', Lit (sq ''..'')])
      else if startswith component ''/''
              \<or> (length component > 1 \<and> component ! 1 = CHR '':'') then
        Inl (Exn ValueError
              [Lit ''Invalid path component: '', Quoted component,
               Lit '' is an absolute path''])
      else Inr ())"

text \<open>
  The contract of the specification, in its own words: a component is unsafe when it is
  empty, contains \<open>..\<close>, contains a path separator, begins with \<open>/\<close>, or has the
  drive-letter pattern (a colon in second position).
\<close>

definition unsafe_component :: "string \<Rightarrow> bool" where
  "unsafe_component s =
     (s = [] \<or> (\<exists>a b. s = a @ ''..'' @ b) \<or> CHR ''/'' \<in> set s \<or> backslash \<in> set s
      \<or> (\<exists>r. s = CHR ''/'' # r) \<or> (\<exists>c r. s = c # CHR '':'' # r))"

section \<open>Paths\<close>

text \<open>
  \<open>pathlib\<close>'s paths in their POSIX flavour. A path is its anchor (empty for a relative
  path, \<open>/\<close> or \<open>//\<close> for an absolute one) and its segments; \<open>Path_of\<close> is the
  constructor \<open>Path(s)\<close>, which drops empty and \<open>.\<close> segments and keeps \<open>..\<close>.
\<close>

datatype path = Path (anchor: string) (segments: "string list")

definition leading_slashes :: "string \<Rightarrow> nat" where
  "leading_slashes s = length (takeWhile (\<lambda>c. c = CHR ''/'') s)"

definition Path_of :: "string \<Rightarrow> path" where
  "Path_of s =
     Path (if leading_slashes s = 2 then ''//''
           else if leading_slashes s \<ge> 1 then ''/'' else [])
          (filter (\<lambda>x. x \<noteq> [] \<and> x \<noteq> ''.'') (split CHR ''/'' s))"

text \<open>\<open>str(p)\<close>.\<close>

definition path_str :: "path \<Rightarrow> string" where
  "path_str p =
     (if anchor p = [] \<and> segments p = [] then ''.''
      else anchor p @ join ''/'' (segments p))"

text \<open>\<open>p.name\<close>: the last segment, empty for a bare anchor and for \<open>.\<close>.\<close>

definition path_name :: "path \<Rightarrow> string" where
  "path_name p = (if segments p = [] then [] else last (segments p))"

text \<open>\<open>p.parent\<close>.\<close>

definition path_parent :: "path \<Rightarrow> path" where
  "path_parent p = Path (anchor p) (butlast (segments p))"

text \<open>\<open>p / s\<close>: an absolute right operand replaces the left one.\<close>

definition truediv :: "path \<Rightarrow> string \<Rightarrow> path" where
  "truediv p s =
     (let q = Path_of s in
      if anchor q \<noteq> [] then q else Path (anchor p) (segments p @ segments q))"

text \<open>\<open>p.joinpath(*parts)\<close>.\<close>

definition joinpath :: "path \<Rightarrow> string list \<Rightarrow> path" where
  "joinpath p parts = foldl truediv p parts"

text \<open>\<open>a.is_relative_to(b)\<close>: \<open>b\<close> is \<open>a\<close> or one of its parents.\<close>

definition is_relative_to :: "path \<Rightarrow> path \<Rightarrow> bool" where
  "is_relative_to a b =
     (anchor a = anchor b \<and> take (length (segments b)) (segments a) = segments b)"

section \<open>Manifests and bundles\<close>

text \<open>
  The fields of a manifest's file entry are those that \<open>CaseBundle.list_files\<close> reads
  (cases.py, lines 202-212); of the manifest, the fields that \<open>cases.py\<close> reads apart
  from the credits: \<open>files\<close>, \<open>collection\<close> and \<open>tags\<close>.
\<close>

record FileEntry =
  entry_path :: string
  entry_format :: string
  entry_format_version :: "string option"
  entry_variant :: "string option"
  entry_default :: bool
  entry_includes :: "string list"

record Manifest =
  files :: "FileEntry list"
  manifest_collection :: "string option"
  tags :: "string list"

text \<open>\<open>CaseBundle\<close> (cases.py, lines 72-101); \<open>dir\<close> is \<open>str(directory)\<close>.\<close>

record CaseBundle =
  bundle_name :: string
  bundle_dir :: string
  bundle_manifest :: Manifest
  is_remote :: bool

text \<open>
  The property \<open>CaseBundle.collection\<close> (cases.py, lines 154-164). A manifest's
  collection is truthy when it is a non-empty string.
\<close>

definition collection :: "CaseBundle \<Rightarrow> string option" where
  "collection b =
     (if manifest_collection (bundle_manifest b) \<noteq> None
         \<and> manifest_collection (bundle_manifest b) \<noteq> Some [] then
        manifest_collection (bundle_manifest b)
      else
        (let case_path = Path_of (bundle_dir b) in
         if path_name (path_parent case_path) \<noteq> ''cases'' then
           Some (path_name (path_parent case_path))
         else None))"

section \<open>The file locator\<close>

text \<open>
  The functions that \<open>cases.py\<close> imports from \<open>manifest.py\<close>, a module that is not
  among the sources: \<open>file_entry\<close>, \<open>get_default_file\<close>, \<open>formats\<close> and
  \<open>variants\<close>. The locator is parameterised by them.
\<close>

record manifest_fns =
  file_entry :: "Manifest \<Rightarrow> string \<Rightarrow> string option \<Rightarrow> string option \<Rightarrow> FileEntry option"
  get_default_file :: "Manifest \<Rightarrow> string \<Rightarrow> FileEntry option"
  manifest_formats :: "Manifest \<Rightarrow> string list"
  manifest_variants :: "Manifest \<Rightarrow> string \<Rightarrow> string list"

text \<open>\<open>_normalize_format\<close> (cases.py, lines 417-423).\<close>

definition normalize_format :: "string \<Rightarrow> string" where
  "normalize_format format =
     (if format = ''raw'' then ''psse_raw''
      else if format = ''dyr'' then ''psse_dyr''
      else format)"

text \<open>\<open>formats\<close> and \<open>variants\<close> (cases.py, lines 426-451).\<close>

definition formats :: "manifest_fns \<Rightarrow> CaseBundle \<Rightarrow> string list" where
  "formats mf c = manifest_formats mf (bundle_manifest c)"

definition variants :: "manifest_fns \<Rightarrow> CaseBundle \<Rightarrow> string \<Rightarrow> string list" where
  "variants mf c format = manifest_variants mf (bundle_manifest c) (normalize_format format)"

text \<open>
  \<open>file\<close> (cases.py, lines 357-414), here \<open>get_file\<close>, the name under which the
  package exported it before. The result is \<open>Inr (Some path)\<close>, \<open>Inr None\<close>
  for Python's \<open>None\<close>, or \<open>Inl\<close> of the exception raised.
\<close>

definition get_file ::
  "manifest_fns \<Rightarrow> CaseBundle \<Rightarrow> string \<Rightarrow> string option \<Rightarrow> string option \<Rightarrow> bool
     \<Rightarrow> exn + string option" where
  "get_file mf c format format_version variant required =
     (let actual_format = normalize_format format;
          entry0 = file_entry mf (bundle_manifest c) actual_format format_version variant;
          entry = (if entry0 = None \<and> variant = None \<and> format_version = None
                   then get_default_file mf (bundle_manifest c) actual_format
                   else entry0)
      in case entry of
           None \<Rightarrow>
             if required then
               (let available = formats mf c in
                case variant of
                  Some v \<Rightarrow>
                    (let var_list = variants mf c actual_format in
                     Inl (Exn FileNotFoundError
                       [Lit ''File not found for format '', Quoted format,
                        Lit '' with variant '', Quoted v,
                        Lit '' in case '', Quoted (bundle_name c),
                        Lit ''. Available variants: '', Str (join '', '' var_list)]))
                | None \<Rightarrow>
                    (case format_version of
                       Some fv \<Rightarrow>
                         Inl (Exn FileNotFoundError
                           [Lit ''File not found for format '', Quoted format,
                            Lit '' with version '', Quoted fv,
                            Lit '' in case '', Quoted (bundle_name c),
                            Lit ''. Available formats: '', Str (join '', '' available)])
                     | None \<Rightarrow>
                         Inl (Exn FileNotFoundError
                           [Lit ''File not found for format '', Quoted format,
                            Lit '' in case '', Quoted (bundle_name c),
                            Lit ''. Available formats: '', Str (join '', '' available)])))
             else Inr None
         | Some e \<Rightarrow> Inr (Some (path_str (truediv (Path_of (bundle_dir c)) (entry_path e)))))"

text \<open>
  Modelled from the spec: the four functions of \<open>manifest.py\<close>, which is not among the
  sources. \<open>file_entry\<close> is the first entry that matches the format and, where given,
  the version and the variant exactly; \<open>get_default_file\<close> is the entry marked
  default for the format, or else the first entry of the format; \<open>formats\<close> and
  \<open>variants\<close> list the formats of the manifest and the variants of a format.
\<close>

definition spec_file_entry ::
  "Manifest \<Rightarrow> string \<Rightarrow> string option \<Rightarrow> string option \<Rightarrow> FileEntry option" where
  "spec_file_entry m format format_version variant =
     find (\<lambda>f. entry_format f = format
               \<and> (format_version = None \<or> entry_format_version f = format_version)
               \<and> (variant = None \<or> entry_variant f = variant)) (files m)"

definition spec_get_default_file :: "Manifest \<Rightarrow> string \<Rightarrow> FileEntry option" where
  "spec_get_default_file m format =
     (case find (\<lambda>f. entry_format f = format \<and> entry_default f) (files m) of
        Some f \<Rightarrow> Some f
      | None \<Rightarrow> find (\<lambda>f. entry_format f = format) (files m))"

definition spec_formats :: "Manifest \<Rightarrow> string list" where
  "spec_formats m = remdups (map entry_format (files m))"

definition spec_variants :: "Manifest \<Rightarrow> string \<Rightarrow> string list" where
  "spec_variants m format =
     remdups (concat (map (\<lambda>f. case entry_variant f of None \<Rightarrow> [] | Some v \<Rightarrow> [v])
                          (filter (\<lambda>f. entry_format f = format) (files m))))"

definition spec_manifest_fns :: manifest_fns where
  "spec_manifest_fns =
     \<lparr>file_entry = spec_file_entry, get_default_file = spec_get_default_file,
      manifest_formats = spec_formats, manifest_variants = spec_variants\<rparr>"

section \<open>The world outside the program\<close>

text \<open>
  What the program reads from the file system, from \<open>cache.py\<close> and from
  \<open>registry.py\<close> (two modules that are not among the sources), as one record of
  observations: a field per library call of \<open>cases.py\<close>. \<open>resolve\<close> is
  \<open>Path.resolve()\<close>, which can raise; \<open>rglob\<close> and \<open>iterdir\<close> give the paths in
  the order the directory scan yields them; \<open>walk_sizes\<close> is the \<open>os.walk\<close> loop of
  \<open>export_case\<close>, the sizes of the files below a directory or the exception of a
  failing \<open>stat\<close>. \<open>CASES_DIR\<close> is the package's directory of bundled cases and
  \<open>cwd\<close> the working directory (for \<open>Path.absolute()\<close>). The tests
  \<open>is_dir\<close>, \<open>is_file\<close> and \<open>exists\<close> answer false where the file system
  refuses them, as \<open>pathlib\<close> does; the directory scans and the lookups in the cache
  and in the registry are taken to return.
\<close>

record world =
  cwd :: path
  CASES_DIR :: path
  is_dir :: "path \<Rightarrow> bool"
  is_file :: "path \<Rightarrow> bool"
  path_exists :: "path \<Rightarrow> bool"
  iterdir :: "path \<Rightarrow> path list"
  rglob :: "path \<Rightarrow> string \<Rightarrow> path list"
  resolve :: "path \<Rightarrow> exn + path"
  walk_sizes :: "path \<Rightarrow> exn + nat list"
  parse_manifest :: "path \<Rightarrow> exn + Manifest"
  infer_manifest :: "path \<Rightarrow> exn + Manifest"
  list_remote_cases :: "string list"
  is_remote_case :: "string \<Rightarrow> bool"
  is_case_cached :: "string \<Rightarrow> bool"
  get_cached_case_dir :: "string \<Rightarrow> path"
  list_cached_cases :: "string list"

text \<open>
  What the program changes: the download of a remote case into the cache, and
  \<open>shutil.rmtree\<close> and \<open>shutil.copytree\<close>. Each takes the world to the exception it
  raised, if any, and the world it left.
\<close>

record effects =
  download :: "string \<Rightarrow> world \<Rightarrow> exn option \<times> world"
  rmtree :: "path \<Rightarrow> world \<Rightarrow> exn option \<times> world"
  copytree :: "path \<Rightarrow> path \<Rightarrow> world \<Rightarrow> exn option \<times> world"

text \<open>\<open>p.absolute()\<close>.\<close>

definition absolute :: "world \<Rightarrow> path \<Rightarrow> path" where
  "absolute w p =
     (if anchor p \<noteq> [] then p else Path (anchor (cwd w)) (segments (cwd w) @ segments p))"

text \<open>
  \<open>a.resolve().is_relative_to(b.resolve())\<close>: the receiver is resolved first, then the
  argument; an exception of either call leaves the expression.
\<close>

definition resolved_within :: "world \<Rightarrow> path \<Rightarrow> path \<Rightarrow> exn + bool" where
  "resolved_within w a b =
     (case resolve w a of
        Inl e \<Rightarrow> Inl e
      | Inr ra \<Rightarrow>
          (case resolve w b of
             Inl e \<Rightarrow> Inl e
           | Inr rb \<Rightarrow> Inr (is_relative_to ra rb)))"

text \<open>
  \<open>_is_safe_subpath\<close> (cases.py, lines 477-492): the handler catches \<open>ValueError\<close>
  and \<open>OSError\<close> with its subclasses; an exception of another class leaves the
  function.
\<close>

definition is_safe_subpath :: "world \<Rightarrow> path \<Rightarrow> path \<Rightarrow> exn + bool" where
  "is_safe_subpath w child parent =
     (case resolved_within w child parent of
        Inr b \<Rightarrow> Inr b
      | Inl e \<Rightarrow>
          if exn_cls e = ValueError \<or> is_OSError (exn_cls e) then Inr False else Inl e)"

section \<open>Loading a case\<close>

text \<open>
  The four lines that the three loaders share: parse \<open>manifest.toml\<close> when the
  directory has one, infer a manifest otherwise.
\<close>

definition read_manifest :: "world \<Rightarrow> path \<Rightarrow> exn + Manifest" where
  "read_manifest w directory =
     (let manifest_path = truediv directory ''manifest.toml'' in
      if is_file w manifest_path then parse_manifest w manifest_path
      else infer_manifest w directory)"

text \<open>\<open>_load_bundled_case\<close> (cases.py, lines 311-318).\<close>

definition load_bundled_case :: "world \<Rightarrow> string \<Rightarrow> path \<Rightarrow> exn + CaseBundle" where
  "load_bundled_case w name directory =
     (case read_manifest w directory of
        Inl e \<Rightarrow> Inl e
      | Inr m \<Rightarrow>
          Inr \<lparr>bundle_name = name, bundle_dir = path_str directory,
               bundle_manifest = m, is_remote = False\<rparr>)"

text \<open>\<open>_load_local_case\<close> (cases.py, lines 321-328).\<close>

definition load_local_case :: "world \<Rightarrow> path \<Rightarrow> exn + CaseBundle" where
  "load_local_case w directory =
     (case read_manifest w directory of
        Inl e \<Rightarrow> Inl e
      | Inr m \<Rightarrow>
          Inr \<lparr>bundle_name = path_name directory,
               bundle_dir = path_str (absolute w directory),
               bundle_manifest = m, is_remote = False\<rparr>)"

text \<open>
  \<open>_load_remote_case\<close> (cases.py, lines 331-354): the one place where loading changes
  the world.
\<close>

definition load_remote_case ::
  "effects \<Rightarrow> world \<Rightarrow> string \<Rightarrow> (exn + CaseBundle) \<times> world" where
  "load_remote_case fx w name_or_path =
     (case (if \<not> is_case_cached w name_or_path then download fx name_or_path w
            else (None, w)) of
        (Some e, w') \<Rightarrow> (Inl e, w')
      | (None, w') \<Rightarrow>
          (let directory = get_cached_case_dir w' name_or_path in
           case read_manifest w' directory of
             Inl e \<Rightarrow> (Inl e, w')
           | Inr m \<Rightarrow>
               (let case_name = (if contains ''/'' name_or_path
                                 then last (split CHR ''/'' name_or_path)
                                 else name_or_path)
                in (Inr \<lparr>bundle_name = case_name, bundle_dir = path_str directory,
                         bundle_manifest = m, is_remote = True\<rparr>, w'))))"

text \<open>
  \<open>_find_case_in_collections\<close> (cases.py, lines 495-532); \<open>search_collections\<close> is
  its loop over \<open>CASES_DIR.iterdir()\<close>.
\<close>

fun search_collections :: "world \<Rightarrow> string \<Rightarrow> path list \<Rightarrow> exn + path list" where
  "search_collections w case_name [] = Inr []"
| "search_collections w case_name (coll_dir # rest) =
     (if \<not> is_dir w coll_dir \<or> startswith (path_name coll_dir) ''.'' then
        search_collections w case_name rest
      else
        (let case_dir = truediv coll_dir case_name in
         if is_dir w case_dir then
           (case resolved_within w case_dir coll_dir of
              Inl e \<Rightarrow> Inl e
            | Inr inside \<Rightarrow>
                (case search_collections w case_name rest of
                   Inl e \<Rightarrow> Inl e
                 | Inr ms \<Rightarrow> Inr ((if inside then [case_dir] else []) @ ms)))
         else search_collections w case_name rest))"

definition find_case_in_collections :: "world \<Rightarrow> string \<Rightarrow> exn + path list" where
  "find_case_in_collections w case_name =
     (case validate_path_component case_name of
        Inl e \<Rightarrow> Inl e
      | Inr _ \<Rightarrow>
          if \<not> is_dir w (CASES_DIR w) then Inr []
          else
            (let top_level_case = truediv (CASES_DIR w) case_name in
             case (if is_dir w top_level_case
                   then resolved_within w top_level_case (CASES_DIR w)
                   else Inr False) of
               Inl e \<Rightarrow> Inl e
             | Inr inside \<Rightarrow>
                 (case search_collections w case_name (iterdir w (CASES_DIR w)) of
                    Inl e \<Rightarrow> Inl e
                  | Inr ms \<Rightarrow> Inr ((if inside then [top_level_case] else []) @ ms))))"

text \<open>
  \<open>_find_remote_case_by_name\<close> (cases.py, lines 535-567); \<open>remote_case_name\<close> is the
  trailing segment its loop compares.
\<close>

definition remote_case_name :: "string \<Rightarrow> string" where
  "remote_case_name remote_path =
     (if contains ''/'' remote_path then last (split CHR ''/'' remote_path)
      else remote_path)"

definition find_remote_case_by_name :: "world \<Rightarrow> string \<Rightarrow> exn + string option" where
  "find_remote_case_by_name w case_name =
     (let matches = filter (\<lambda>remote_path. remote_case_name remote_path = case_name)
                      (list_remote_cases w)
      in if length matches > 1 then
           Inl (Exn ValueError
                 [Lit ''Ambiguous remote case '', Quoted case_name,
                  Lit '' found in multiple collections: '', StrList matches])
         else Inr (case matches of [] \<Rightarrow> None | m # _ \<Rightarrow> Some m))"

section \<open>Listing the cases\<close>

text \<open>
  \<open>cases\<close> (cases.py, lines 570-651). Its dictionary \<open>result\<close>, from a case name to
  the pair of a collection and a tag list, is an association list in insertion order;
  \<open>AList.update\<close> is the assignment \<open>result[k] = v\<close> (a present key keeps its place).
  The five functions below are the loops of the source, in its order.
\<close>

type_synonym case_dict = "(string \<times> (string option \<times> string list)) list"

fun scan_manifests :: "world \<Rightarrow> path list \<Rightarrow> case_dict \<Rightarrow> case_dict" where
  "scan_manifests w [] result = result"
| "scan_manifests w (manifest_path # rest) result =
     (let case_dir = path_parent manifest_path;
          case_name = path_name case_dir
      in if startswith case_name ''.'' then scan_manifests w rest result
         else
           (let coll_dir = path_parent case_dir;
                coll_name = (if coll_dir = CASES_DIR w then None
                             else Some (path_name coll_dir));
                tag_list = (case parse_manifest w manifest_path of
                              Inl _ \<Rightarrow> []
                            | Inr m \<Rightarrow> tags m)
            in scan_manifests w rest
                 (AList.update case_name (coll_name, tag_list) result)))"

fun scan_case_dirs :: "world \<Rightarrow> path \<Rightarrow> path list \<Rightarrow> case_dict \<Rightarrow> case_dict" where
  "scan_case_dirs w coll_dir [] result = result"
| "scan_case_dirs w coll_dir (case_dir # rest) result =
     (if is_dir w case_dir \<and> map_of result (path_name case_dir) = None then
        scan_case_dirs w coll_dir rest
          (AList.update (path_name case_dir) (Some (path_name coll_dir), []) result)
      else scan_case_dirs w coll_dir rest result)"

fun scan_collections :: "world \<Rightarrow> path list \<Rightarrow> case_dict \<Rightarrow> case_dict" where
  "scan_collections w [] result = result"
| "scan_collections w (coll_dir # rest) result =
     (if \<not> is_dir w coll_dir \<or> startswith (path_name coll_dir) ''.'' then
        scan_collections w rest result
      else scan_collections w rest
             (scan_case_dirs w coll_dir (iterdir w coll_dir) result))"

fun add_remote_cases :: "string list \<Rightarrow> case_dict \<Rightarrow> case_dict" where
  "add_remote_cases [] result = result"
| "add_remote_cases (remote_path # rest) result =
     (let parts = split CHR ''/'' remote_path;
          case_name = (if contains ''/'' remote_path then last parts else remote_path);
          coll_name = (if contains ''/'' remote_path
                       then (if length parts > 1 then Some (hd parts) else None)
                       else None)
      in if map_of result case_name = None then
           add_remote_cases rest (AList.update case_name (coll_name, []) result)
         else add_remote_cases rest result)"

fun add_cached_cases :: "string list \<Rightarrow> case_dict \<Rightarrow> case_dict" where
  "add_cached_cases [] result = result"
| "add_cached_cases (name # rest) result =
     (if map_of result name = None then
        add_cached_cases rest (AList.update name (None, []) result)
      else add_cached_cases rest result)"

text \<open>The test of the filter loop: the entry is kept unless one of the two \<open>continue\<close>s fires.\<close>

definition passes_filters ::
  "string option \<Rightarrow> string option \<Rightarrow> string option \<times> string list \<Rightarrow> bool" where
  "passes_filters collection_filter tag_filter v =
     (\<not> (collection_filter \<noteq> None \<and> fst v \<noteq> collection_filter)
      \<and> \<not> (case tag_filter of None \<Rightarrow> False | Some t \<Rightarrow> t \<notin> set (snd v)))"

definition case_table :: "world \<Rightarrow> case_dict" where
  "case_table w =
     add_cached_cases (list_cached_cases w)
       (add_remote_cases (list_remote_cases w)
          (if is_dir w (CASES_DIR w) then
             scan_collections w (iterdir w (CASES_DIR w))
               (scan_manifests w (rglob w (CASES_DIR w) ''manifest.toml'') [])
           else []))"

definition cases :: "world \<Rightarrow> string option \<Rightarrow> string option \<Rightarrow> string list" where
  "cases w collection_filter tag_filter =
     sort (map fst (filter (\<lambda>kv. passes_filters collection_filter tag_filter (snd kv))
                           (case_table w)))"

section \<open>Resolving a name\<close>

text \<open>
  \<open>load\<close> (cases.py, lines 223-308). A match of the global search is the tuple of the
  source: its kind (\<open>bundled\<close> or \<open>remote\<close>), its collection name and its location, a
  directory for a bundled match and a registry path for a remote one.
\<close>

datatype match = Bundled string path | Remote string string

fun source_label :: "match \<Rightarrow> string" where
  "source_label (Bundled coll _) = ''bundled'' @ '':'' @ coll"
| "source_label (Remote coll _) = ''remote'' @ '':'' @ coll"

fun validate_parts :: "string list \<Rightarrow> exn + unit" where
  "validate_parts [] = Inr ()"
| "validate_parts (part # rest) =
     (case validate_path_component part of
        Inl e \<Rightarrow> Inl e
      | Inr _ \<Rightarrow> validate_parts rest)"

text \<open>
  Step 2 of \<open>load\<close>, the \<open>collection/case\<close> form: \<open>Some\<close> of what \<open>load\<close> returns or
  raises there, \<open>None\<close> when control falls through to the global search.
\<close>

definition load_collection_path ::
  "effects \<Rightarrow> world \<Rightarrow> string \<Rightarrow> ((exn + CaseBundle) \<times> world) option" where
  "load_collection_path fx w name_or_path =
     (if contains ''/'' name_or_path then
        (let parts = split CHR ''/'' name_or_path in
         case validate_parts parts of
           Inl e \<Rightarrow> Some (Inl e, w)
         | Inr _ \<Rightarrow>
             (let bundled_dir = joinpath (CASES_DIR w) parts in
              case (if is_dir w bundled_dir
                    then resolved_within w bundled_dir (CASES_DIR w)
                    else Inr False) of
                Inl e \<Rightarrow> Some (Inl e, w)
              | Inr inside \<Rightarrow>
                  if inside then Some (load_bundled_case w (last parts) bundled_dir, w)
                  else if is_remote_case w name_or_path
                  then Some (load_remote_case fx w name_or_path)
                  else None))
      else None)"

text \<open>The bundled and the remote matches that step 3 collects.\<close>

definition bundled_matches :: "world \<Rightarrow> path list \<Rightarrow> match list" where
  "bundled_matches w case_dirs =
     map (\<lambda>case_dir.
            Bundled (if path_parent case_dir \<noteq> CASES_DIR w
                     then path_name (path_parent case_dir) else ''(root)'')
                    case_dir) case_dirs"

definition remote_matches :: "string option \<Rightarrow> match list" where
  "remote_matches remote_path =
     (case remote_path of
        None \<Rightarrow> []
      | Some r \<Rightarrow>
          if r \<noteq> [] then
            [Remote (if contains ''/'' r then hd (split CHR ''/'' r) else ''(root)'') r]
          else [])"

text \<open>Steps 3 to 6 of \<open>load\<close>: the global search by bare name.\<close>

definition load_by_name ::
  "effects \<Rightarrow> world \<Rightarrow> string \<Rightarrow> (exn + CaseBundle) \<times> world" where
  "load_by_name fx w name_or_path =
     (case find_case_in_collections w name_or_path of
        Inl e \<Rightarrow> (Inl e, w)
      | Inr case_dirs \<Rightarrow>
          (case find_remote_case_by_name w name_or_path of
             Inl e \<Rightarrow> (Inl e, w)
           | Inr remote_path \<Rightarrow>
               (let matches = bundled_matches w case_dirs @ remote_matches remote_path in
                if length matches > 1 then
                  (Inl (Exn ValueError
                         [Lit ''Ambiguous case name '', Quoted name_or_path,
                          Lit '' found in multiple locations: '',
                          StrList (map source_label matches),
                          Lit ''. Use 'collection/case' format to specify.'']), w)
                else
                  (case matches of
                     [Bundled _ location] \<Rightarrow>
                       (load_bundled_case w name_or_path location, w)
                   | [Remote _ location] \<Rightarrow> load_remote_case fx w location
                   | _ \<Rightarrow>
                       (Inl (Exn ValueError
                              [Lit ''Unknown case: '', Quoted name_or_path,
                               Lit ''. Available: '',
                               Str (join '', '' (take 10 (cases w None None)))]), w)))))"

definition load :: "effects \<Rightarrow> world \<Rightarrow> string \<Rightarrow> (exn + CaseBundle) \<times> world" where
  "load fx w name_or_path =
     (let path = Path_of name_or_path in
      if is_dir w path then (load_local_case w path, w)
      else
        (case load_collection_path fx w name_or_path of
           Some r \<Rightarrow> r
         | None \<Rightarrow> load_by_name fx w name_or_path))"

section \<open>Export\<close>

text \<open>
  \<open>export_case\<close> (cases.py, lines 683-765). What it prints is left out; everything it
  reads and changes is here, in the source's order: the load, the existence check, the
  walk over the source directory, the removal, the copy.
\<close>

definition export_case ::
  "effects \<Rightarrow> world \<Rightarrow> string \<Rightarrow> string \<Rightarrow> bool \<Rightarrow> (exn + string) \<times> world" where
  "export_case fx w case_name dest overwrite =
     (case load fx w case_name of
        (Inl e, w1) \<Rightarrow> (Inl e, w1)
      | (Inr c, w1) \<Rightarrow>
          (let dest_path = absolute w1 (Path_of dest);
               dest_dir = truediv dest_path (bundle_name c)
           in if path_exists w1 dest_dir \<and> \<not> overwrite then
                (Inl (Exn FileExistsError
                       [Lit ''Directory exists: '', Str (path_str dest_dir),
                        Lit [CHR 0x0A],
                        Lit ''Use overwrite=True to replace existing directory'']), w1)
              else
                (let case_path = Path_of (bundle_dir c) in
                 case walk_sizes w1 case_path of
                   Inl e \<Rightarrow> (Inl e, w1)
                 | Inr sizes \<Rightarrow>
                     (case (if path_exists w1 dest_dir \<and> overwrite
                            then rmtree fx dest_dir w1 else (None, w1)) of
                        (Some e, w2) \<Rightarrow> (Inl e, w2)
                      | (None, w2) \<Rightarrow>
                          (case copytree fx case_path dest_dir w2 of
                             (Some e, w3) \<Rightarrow> (Inl e, w3)
                           | (None, w3) \<Rightarrow> (Inr (path_str dest_dir), w3))))))"

section \<open>The legacy accessors\<close>

text \<open>
  \<open>_make_legacy_case_fn\<close> (cases.py, lines 776-805) and the accessors it generates
  (lines 808-823). The process state is the module's set \<open>_deprecation_warned\<close> and
  the warnings issued so far; the text of a warning is a function of the case name, so
  a warning is kept as its category and that name.
\<close>

datatype warning = DeprecationWarning string

record process =
  deprecation_warned :: "string set"
  warnings_issued :: "warning list"

definition make_legacy_case_fn ::
  "string \<Rightarrow> effects \<Rightarrow> process \<times> world \<Rightarrow> (exn + CaseBundle) \<times> process \<times> world" where
  "make_legacy_case_fn name fx pw =
     (let p = fst pw;
          p' = (if name \<notin> deprecation_warned p then
                  p\<lparr>deprecation_warned := insert name (deprecation_warned p),
                    warnings_issued := warnings_issued p @ [DeprecationWarning name]\<rparr>
                else p);
          r = load fx (snd pw) name
      in (fst r, p', snd r))"

definition ieee14 where "ieee14 = make_legacy_case_fn ''ieee14''"
definition ieee39 where "ieee39 = make_legacy_case_fn ''ieee39''"
definition ieee118 where "ieee118 = make_legacy_case_fn ''ieee118''"
definition ACTIVSg2000 where "ACTIVSg2000 = make_legacy_case_fn ''ACTIVSg2000''"
definition ACTIVSg10k where "ACTIVSg10k = make_legacy_case_fn ''ACTIVSg10k''"
definition ACTIVSg70k where "ACTIVSg70k = make_legacy_case_fn ''ACTIVSg70k''"
definition case5 where "case5 = make_legacy_case_fn ''case5''"
definition case9 where "case9 = make_legacy_case_fn ''case9''"
definition npcc where "npcc = make_legacy_case_fn ''npcc''"
definition two_bus_branch where "two_bus_branch = make_legacy_case_fn ''two_bus_branch''"
definition two_bus_transformer where
  "two_bus_transformer = make_legacy_case_fn ''two_bus_transformer''"
definition ieee14_fault where "ieee14_fault = make_legacy_case_fn ''ieee14_fault''"
definition ieee14_island where "ieee14_island = make_legacy_case_fn ''ieee14_island''"
definition ieee39_nopq31 where "ieee39_nopq31 = make_legacy_case_fn ''ieee39_nopq31''"
definition ieee39_rt where "ieee39_rt = make_legacy_case_fn ''ieee39_rt''"

text \<open>The accessors with the names they are generated from, in the order of the source.\<close>

definition legacy_accessors ::
  "(string \<times> (effects \<Rightarrow> process \<times> world \<Rightarrow> (exn + CaseBundle) \<times> process \<times> world)) list"
  where
  "legacy_accessors =
     [(''ieee14'', ieee14), (''ieee39'', ieee39), (''ieee118'', ieee118),
      (''ACTIVSg2000'', ACTIVSg2000), (''ACTIVSg10k'', ACTIVSg10k),
      (''ACTIVSg70k'', ACTIVSg70k), (''case5'', case5), (''case9'', case9),
      (''npcc'', npcc), (''two_bus_branch'', two_bus_branch),
      (''two_bus_transformer'', two_bus_transformer),
      (''ieee14_fault'', ieee14_fault), (''ieee14_island'', ieee14_island),
      (''ieee39_nopq31'', ieee39_nopq31), (''ieee39_rt'', ieee39_rt)]"

section \<open>The matches of a bare name\<close>

text \<open>
  For the statements about the global search: the registry entries whose trailing segment
  is the name, and the \<open>source:collection\<close> pair of every match found, bundled ones
  first.
\<close>

definition remote_hits :: "world \<Rightarrow> string \<Rightarrow> string list" where
  "remote_hits w n = filter (\<lambda>r. remote_case_name r = n) (list_remote_cases w)"

definition found_sources :: "world \<Rightarrow> path list \<Rightarrow> string \<Rightarrow> string list" where
  "found_sources w case_dirs n =
     map (\<lambda>d. ''bundled:'' @ (if path_parent d = CASES_DIR w then ''(root)''
                               else path_name (path_parent d))) case_dirs
     @ map (\<lambda>r. ''remote:'' @ (if CHR ''/'' \<in> set r then hd (split CHR ''/'' r)
                                else ''(root)'')) (remote_hits w n)"

section \<open>The merge of the case list in the words of the specification\<close>

text \<open>
  The entries that each source contributes, in the order in which it is read, and the merge
  in which an entry is added only when its name is not yet present (first seen wins).
  \<open>merged_cases\<close> is the table that the listing filters: \<open>map_of\<close> takes the first
  entry of a name, so the scanned manifests stand in it in reverse, the last one scanned
  first.
\<close>

fun merge_first_seen :: "('k \<times> 'v) list \<Rightarrow> ('k \<times> 'v) list \<Rightarrow> ('k \<times> 'v) list" where
  "merge_first_seen [] result = result"
| "merge_first_seen (e # es) result =
     merge_first_seen es
       (if map_of result (fst e) = None then AList.update (fst e) (snd e) result else result)"

definition manifest_entry :: "world \<Rightarrow> path \<Rightarrow> string \<times> string option \<times> string list" where
  "manifest_entry w mp =
     (path_name (path_parent mp),
      (if path_parent (path_parent mp) = CASES_DIR w then None
       else Some (path_name (path_parent (path_parent mp)))),
      (case parse_manifest w mp of Inl _ \<Rightarrow> [] | Inr m \<Rightarrow> tags m))"

definition manifest_entries :: "world \<Rightarrow> case_dict" where
  "manifest_entries w =
     map (manifest_entry w)
         (filter (\<lambda>mp. \<not> startswith (path_name (path_parent mp)) ''.'')
                 (rglob w (CASES_DIR w) ''manifest.toml''))"

definition directory_entries :: "world \<Rightarrow> case_dict" where
  "directory_entries w =
     concat (map (\<lambda>coll_dir.
                    map (\<lambda>case_dir. (path_name case_dir, (Some (path_name coll_dir), [])))
                        (filter (is_dir w) (iterdir w coll_dir)))
                 (filter (\<lambda>d. is_dir w d \<and> \<not> startswith (path_name d) ''.'')
                         (iterdir w (CASES_DIR w))))"

definition remote_entries :: "world \<Rightarrow> case_dict" where
  "remote_entries w =
     map (\<lambda>r. (remote_case_name r,
                (if CHR ''/'' \<in> set r then Some (hd (split CHR ''/'' r)) else None), []))
         (list_remote_cases w)"

definition cached_entries :: "world \<Rightarrow> case_dict" where
  "cached_entries w = map (\<lambda>n. (n, None, [])) (list_cached_cases w)"

definition merged_cases :: "world \<Rightarrow> string \<Rightarrow> (string option \<times> string list) option" where
  "merged_cases w =
     map_of ((if is_dir w (CASES_DIR w)
              then rev (manifest_entries w) @ directory_entries w else [])
             @ remote_entries w @ cached_entries w)"

section \<open>Examples\<close>

text \<open>
  The manifests, bundles and worlds at which the theorems below are evaluated. A plain
  segment is a directory name as it stands in a path: not empty, not \<open>.\<close>, without a
  separator.
\<close>

definition plain_segment :: "string \<Rightarrow> bool" where
  "plain_segment s = (s \<noteq> [] \<and> s \<noteq> ''.'' \<and> CHR ''/'' \<notin> set s)"

definition ieee14_manifest :: Manifest where
  "ieee14_manifest =
     \<lparr>files =
        [\<lparr>entry_path = ''ieee14.raw'', entry_format = ''psse_raw'',
          entry_format_version = Some ''33'', entry_variant = None,
          entry_default = True, entry_includes = []\<rparr>,
         \<lparr>entry_path = ''ieee14.dyr'', entry_format = ''psse_dyr'',
          entry_format_version = None, entry_variant = None,
          entry_default = True, entry_includes = []\<rparr>,
         \<lparr>entry_path = ''ieee14_genrou.dyr'', entry_format = ''psse_dyr'',
          entry_format_version = None, entry_variant = Some ''genrou'',
          entry_default = False, entry_includes = []\<rparr>],
      manifest_collection = None, tags = [''benchmark'']\<rparr>"

definition ieee14_bundle :: CaseBundle where
  "ieee14_bundle =
     \<lparr>bundle_name = ''ieee14'', bundle_dir = ''/pkg/cases/ieee-transmission/ieee14'',
      bundle_manifest = ieee14_manifest, is_remote = False\<rparr>"

definition flat_bundle :: CaseBundle where
  "flat_bundle =
     \<lparr>bundle_name = ''case5'', bundle_dir = ''/pkg/cases/case5'',
      bundle_manifest = ieee14_manifest, is_remote = False\<rparr>"

text \<open>A world with nothing in it: no directory, no file, an empty registry and cache.\<close>

definition empty_world :: world where
  "empty_world =
     \<lparr>cwd = Path ''/'' [''home''], CASES_DIR = Path ''/'' [''pkg'', ''cases''],
      is_dir = (\<lambda>p. False), is_file = (\<lambda>p. False), path_exists = (\<lambda>p. False),
      iterdir = (\<lambda>p. []), rglob = (\<lambda>p s. []), resolve = (\<lambda>p. Inr p),
      walk_sizes = (\<lambda>p. Inr []),
      parse_manifest = (\<lambda>p. Inr ieee14_manifest),
      infer_manifest = (\<lambda>p. Inr ieee14_manifest),
      list_remote_cases = [], is_remote_case = (\<lambda>s. False),
      is_case_cached = (\<lambda>s. False),
      get_cached_case_dir = (\<lambda>s. truediv (Path ''/'' [''cache'']) s),
      list_cached_cases = []\<rparr>"

text \<open>A link inside \<open>/root\<close> that points outside of it.\<close>

definition symlink_world :: world where
  "symlink_world =
     empty_world\<lparr>resolve := (\<lambda>p. if p = Path ''/'' [''root'', ''link'']
                                 then Inr (Path ''/'' [''outside'']) else Inr p)\<rparr>"

text \<open>
  A link that points to itself: before Python 3.13 \<open>Path.resolve()\<close> raises
  \<open>RuntimeError\<close> for it.
\<close>

definition loop_world :: world where
  "loop_world =
     empty_world\<lparr>resolve := (\<lambda>p. if p = Path ''/'' [''root'', ''loop'']
                                 then Inl (Exn RuntimeError
                                            [Lit ''Symlink loop from '', Quoted ''/root/loop''])
                                 else Inr p)\<rparr>"

text \<open>
  A package with the collections \<open>ieee-transmission\<close> (holding \<open>ieee14\<close>, with a
  manifest) and \<open>test\<close> (empty), a registry with one remote case, a local project
  directory \<open>proj\<close> below the working directory, and an export destination \<open>/out\<close>
  that already holds \<open>ieee14/old.txt\<close>.
\<close>

definition bundled_world :: world where
  "bundled_world =
     empty_world
       \<lparr>is_dir := (\<lambda>p. p \<in> set
           [Path ''/'' [''pkg'', ''cases''],
            Path ''/'' [''pkg'', ''cases'', ''ieee-transmission''],
            Path ''/'' [''pkg'', ''cases'', ''ieee-transmission'', ''ieee14''],
            Path ''/'' [''pkg'', ''cases'', ''test''],
            Path [] [''proj''],
            Path ''/'' [''out''],
            Path ''/'' [''out'', ''ieee14'']]),
        is_file := (\<lambda>p. p \<in> set
           [Path ''/'' [''pkg'', ''cases'', ''ieee-transmission'', ''ieee14'', ''manifest.toml''],
            Path ''/'' [''pkg'', ''cases'', ''ieee-transmission'', ''ieee14'', ''ieee14.raw''],
            Path ''/'' [''out'', ''ieee14'', ''old.txt'']]),
        path_exists := (\<lambda>p. p \<in> set
           [Path ''/'' [''pkg'', ''cases''],
            Path ''/'' [''pkg'', ''cases'', ''ieee-transmission''],
            Path ''/'' [''pkg'', ''cases'', ''ieee-transmission'', ''ieee14''],
            Path ''/'' [''pkg'', ''cases'', ''ieee-transmission'', ''ieee14'', ''manifest.toml''],
            Path ''/'' [''pkg'', ''cases'', ''ieee-transmission'', ''ieee14'', ''ieee14.raw''],
            Path ''/'' [''pkg'', ''cases'', ''test''],
            Path [] [''proj''],
            Path ''/'' [''out''],
            Path ''/'' [''out'', ''ieee14''],
            Path ''/'' [''out'', ''ieee14'', ''old.txt'']]),
        iterdir := (\<lambda>p.
           if p = Path ''/'' [''pkg'', ''cases''] then
             [Path ''/'' [''pkg'', ''cases'', ''ieee-transmission''],
              Path ''/'' [''pkg'', ''cases'', ''test'']]
           else if p = Path ''/'' [''pkg'', ''cases'', ''ieee-transmission''] then
             [Path ''/'' [''pkg'', ''cases'', ''ieee-transmission'', ''ieee14'']]
           else []),
        rglob := (\<lambda>p s.
           if p = Path ''/'' [''pkg'', ''cases''] \<and> s = ''manifest.toml'' then
             [Path ''/'' [''pkg'', ''cases'', ''ieee-transmission'', ''ieee14'', ''manifest.toml'']]
           else []),
        walk_sizes := (\<lambda>p. Inr [120, 4000]),
        list_remote_cases := [''synthetic/ACTIVSg2000''],
        is_remote_case := (\<lambda>s. s = ''synthetic/ACTIVSg2000'')\<rparr>"

text \<open>The same package with a second \<open>ieee14\<close>, in \<open>test\<close>, and a third in the registry.\<close>

definition ambiguous_world :: world where
  "ambiguous_world =
     bundled_world
       \<lparr>is_dir := (\<lambda>p. is_dir bundled_world p
                        \<or> p = Path ''/'' [''pkg'', ''cases'', ''test'', ''ieee14'']),
        list_remote_cases := [''synthetic/ACTIVSg2000'', ''community/ieee14'']\<rparr>"

text \<open>The package of \<open>bundled_world\<close> with a registry that lists \<open>ieee14\<close> twice.\<close>

definition remote_twice_world :: world where
  "remote_twice_world =
     bundled_world\<lparr>list_remote_cases := [''r1/ieee14'', ''r2/ieee14'']\<rparr>"

text \<open>
  Two collections that each hold a case \<open>x\<close> with a manifest; the scan finds the one
  of collection \<open>a\<close> first.
\<close>

definition twin_world :: world where
  "twin_world =
     empty_world
       \<lparr>is_dir := (\<lambda>p. p \<in> set
           [Path ''/'' [''pkg'', ''cases''],
            Path ''/'' [''pkg'', ''cases'', ''a''],
            Path ''/'' [''pkg'', ''cases'', ''a'', ''x''],
            Path ''/'' [''pkg'', ''cases'', ''b''],
            Path ''/'' [''pkg'', ''cases'', ''b'', ''x'']]),
        iterdir := (\<lambda>p.
           if p = Path ''/'' [''pkg'', ''cases''] then
             [Path ''/'' [''pkg'', ''cases'', ''a''], Path ''/'' [''pkg'', ''cases'', ''b'']]
           else if p = Path ''/'' [''pkg'', ''cases'', ''a''] then
             [Path ''/'' [''pkg'', ''cases'', ''a'', ''x'']]
           else if p = Path ''/'' [''pkg'', ''cases'', ''b''] then
             [Path ''/'' [''pkg'', ''cases'', ''b'', ''x'']]
           else []),
        rglob := (\<lambda>p s.
           if p = Path ''/'' [''pkg'', ''cases''] \<and> s = ''manifest.toml'' then
             [Path ''/'' [''pkg'', ''cases'', ''a'', ''x'', ''manifest.toml''],
              Path ''/'' [''pkg'', ''cases'', ''b'', ''x'', ''manifest.toml'']]
           else [])\<rparr>"

text \<open>The two collections of \<open>twin_world\<close> without manifests: the scan for them finds none.\<close>

definition twin_dir_world :: world where
  "twin_dir_world = twin_world\<lparr>rglob := (\<lambda>p s. [])\<rparr>"

text \<open>
  Effects for the examples: a download marks the case as cached; \<open>rmtree\<close> removes a
  path and everything below it; \<open>copytree\<close> refuses an existing destination and
  otherwise creates, below the destination, a copy of everything below the source.
\<close>

definition example_effects :: effects where
  "example_effects =
     \<lparr>download = (\<lambda>n w.
        (None, w\<lparr>is_case_cached := (\<lambda>s. s = n \<or> is_case_cached w s)\<rparr>)),
      rmtree = (\<lambda>p w.
        (None, w\<lparr>is_dir := (\<lambda>q. is_dir w q \<and> \<not> is_relative_to q p),
                  is_file := (\<lambda>q. is_file w q \<and> \<not> is_relative_to q p),
                  path_exists := (\<lambda>q. path_exists w q \<and> \<not> is_relative_to q p)\<rparr>)),
      copytree = (\<lambda>src dst w.
        if path_exists w dst then
          (Some (Exn FileExistsError [Lit ''File exists: '', Quoted (path_str dst)]), w)
        else
          (None, w\<lparr>path_exists := (\<lambda>q.
             path_exists w q
             \<or> (is_relative_to q dst
                \<and> path_exists w
                     (Path (anchor src)
                        (segments src @ drop (length (segments dst)) (segments q)))))\<rparr>))\<rparr>"

section \<open>Properties of the string functions\<close>

lemma startswith_iff: "startswith s p \<longleftrightarrow> (\<exists>r. s = p @ r)"
  unfolding startswith_def
  by (metis append_eq_conv_conj append_take_drop_id)

lemma contains_iff: "contains sub s \<longleftrightarrow> (\<exists>a b. s = a @ sub @ b)"
proof (induction s)
  case Nil
  show ?case by auto
next
  case (Cons c cs)
  show ?case
  proof
    assume "contains sub (c # cs)"
    then consider "startswith (c # cs) sub" | "contains sub cs" by auto
    then show "\<exists>a b. c # cs = a @ sub @ b"
    proof cases
      case 1
      then obtain r where "c # cs = sub @ r" by (auto simp: startswith_iff)
      then have "c # cs = [] @ sub @ r" by simp
      then show ?thesis by blast
    next
      case 2
      with Cons.IH obtain a b where "cs = a @ sub @ b" by auto
      then have "c # cs = (c # a) @ sub @ b" by simp
      then show ?thesis by blast
    qed
  next
    assume "\<exists>a b. c # cs = a @ sub @ b"
    then obtain a b where ab: "c # cs = a @ sub @ b" by auto
    show "contains sub (c # cs)"
    proof (cases a)
      case Nil
      with ab have "startswith (c # cs) sub" by (auto simp: startswith_iff)
      then show ?thesis by simp
    next
      case (Cons x a')
      with ab have "cs = a' @ sub @ b" by simp
      with Cons.IH have "contains sub cs" by blast
      then show ?thesis by simp
    qed
  qed
qed

lemma contains_char: "contains [ch] s \<longleftrightarrow> ch \<in> set s"
  by (induction s) (auto simp: startswith_def)

lemma split_not_Nil: "split sep s \<noteq> []"
  by (induction s) (auto split: list.splits)

lemma split_append: "split sep (a @ sep # b) = split sep a @ split sep b"
  by (induction a) (auto split: list.splits simp: split_not_Nil)

lemma split_no_sep: "sep \<notin> set s \<Longrightarrow> split sep s = [s]"
  by (induction s) auto

lemma join_mentions: "x \<in> set xs \<Longrightarrow> \<exists>a b. join sep xs = a @ x @ b"
proof (induction sep xs rule: join.induct)
  case (1 sep)
  then show ?case by simp
next
  case (2 sep y)
  then have "join sep [y] = [] @ x @ []" by simp
  then show ?case by blast
next
  case (3 sep y z zs)
  show ?case
  proof (cases "x = y")
    case True
    then have "join sep (y # z # zs) = [] @ x @ (sep @ join sep (z # zs))" by simp
    then show ?thesis by blast
  next
    case False
    with 3 obtain a b where "join sep (z # zs) = a @ x @ b" by auto
    then have "join sep (y # z # zs) = (y @ sep @ a) @ x @ b" by simp
    then show ?thesis by blast
  qed
qed

section \<open>Properties of paths and formats\<close>

lemma normalize_format_idem: "normalize_format (normalize_format f) = normalize_format f"
  by (simp add: normalize_format_def)

lemma segments_layout:
  assumes "plain_segment coll" "plain_segment nm"
  shows "segments (Path_of (pre @ ''/'' @ coll @ ''/'' @ nm))
         = filter (\<lambda>x. x \<noteq> [] \<and> x \<noteq> ''.'') (split CHR ''/'' pre) @ [coll, nm]"
proof -
  have "split CHR ''/'' (pre @ CHR ''/'' # (coll @ CHR ''/'' # nm))
        = split CHR ''/'' pre @ split CHR ''/'' coll @ split CHR ''/'' nm"
    by (simp only: split_append)
  moreover have "split CHR ''/'' coll = [coll]" "split CHR ''/'' nm = [nm]"
    using assms by (simp_all add: plain_segment_def split_no_sep)
  ultimately show ?thesis
    using assms by (simp add: Path_of_def plain_segment_def)
qed

section \<open>Properties of validation and of the search\<close>

lemma unsafe_component_iff:
  "unsafe_component s \<longleftrightarrow>
      (s = [] \<or> contains ''..'' s \<or> contains ''/'' s \<or> contains [backslash] s
       \<or> startswith s ''/'' \<or> (length s > 1 \<and> s ! 1 = CHR '':''))"
proof -
  have drive: "(length s > 1 \<and> s ! 1 = CHR '':'') \<longleftrightarrow> (\<exists>c r. s = c # CHR '':'' # r)"
  proof (cases s)
    case Nil
    then show ?thesis by simp
  next
    case (Cons c t)
    then show ?thesis by (cases t) auto
  qed
  have root: "startswith s ''/'' \<longleftrightarrow> (\<exists>r. s = CHR ''/'' # r)"
    by (simp add: startswith_iff)
  show ?thesis
    unfolding unsafe_component_def contains_iff [of "''..''"] contains_char root drive
    by simp
qed

lemma validate_ok_iff: "validate_path_component s = Inr () \<longleftrightarrow> \<not> unsafe_component s"
  unfolding unsafe_component_iff by (simp add: validate_path_component_def)




lemma load_bare_name:
  "\<not> is_dir w (Path_of n) \<Longrightarrow> CHR ''/'' \<notin> set n \<Longrightarrow> load fx w n = load_by_name fx w n"
  by (simp add: load_def load_collection_path_def contains_char)

lemma find_case_valid_name:
  "find_case_in_collections w n = Inr ds \<Longrightarrow> validate_path_component n = Inr ()"
  by (auto simp: find_case_in_collections_def split: sum.splits)

lemma remote_hit_nonempty:
  assumes "validate_path_component n = Inr ()" and "r \<in> set (remote_hits w n)"
  shows "r \<noteq> []"
proof
  assume "r = []"
  with assms(2) have "n = []" by (auto simp: remote_hits_def remote_case_name_def)
  with assms(1) show False by (simp add: validate_path_component_def)
qed

lemma find_remote_case_by_name_cases:
  "find_remote_case_by_name w n =
     (case remote_hits w n of
        [] \<Rightarrow> Inr None
      | [r] \<Rightarrow> Inr (Some r)
      | r # r' # rs \<Rightarrow>
          Inl (Exn ValueError
                [Lit ''Ambiguous remote case '', Quoted n,
                 Lit '' found in multiple collections: '', StrList (remote_hits w n)]))"
  by (simp add: find_remote_case_by_name_def remote_hits_def Let_def split: list.splits)

lemma source_labels_found:
  assumes "validate_path_component n = Inr ()" and "length (remote_hits w n) \<le> 1"
  shows "map source_label
           (bundled_matches w case_dirs
            @ remote_matches (case remote_hits w n of [] \<Rightarrow> None | r # _ \<Rightarrow> Some r))
         = found_sources w case_dirs n"
proof -
  have b: "map source_label (bundled_matches w case_dirs)
           = map (\<lambda>d. ''bundled:'' @ (if path_parent d = CASES_DIR w then ''(root)''
                                     else path_name (path_parent d))) case_dirs"
    by (simp add: bundled_matches_def comp_def)
  show ?thesis
  proof (cases "remote_hits w n")
    case Nil
    then show ?thesis by (simp add: b found_sources_def remote_matches_def)
  next
    case (Cons r rs)
    with assms(2) have rs: "rs = []" by simp
    from Cons have "r \<in> set (remote_hits w n)" by simp
    with assms(1) have "r \<noteq> []" by (rule remote_hit_nonempty)
    with Cons rs show ?thesis
      by (simp add: b found_sources_def remote_matches_def contains_char)
  qed
qed

lemma load_by_name_world:
  "find_remote_case_by_name w n = Inr None \<Longrightarrow> snd (load_by_name fx w n) = w"
  by (auto simp: load_by_name_def remote_matches_def bundled_matches_def Let_def
           split: sum.splits list.splits match.splits)

lemmas legacy_defs =
  ieee14_def ieee39_def ieee118_def ACTIVSg2000_def ACTIVSg10k_def ACTIVSg70k_def
  case5_def case9_def npcc_def two_bus_branch_def two_bus_transformer_def
  ieee14_fault_def ieee14_island_def ieee39_nopq31_def ieee39_rt_def

lemma make_legacy_case_fn_load:
  "fst (make_legacy_case_fn name fx (p, w)) = fst (load fx w name)
   \<and> snd (snd (make_legacy_case_fn name fx (p, w))) = snd (load fx w name)
   \<and> deprecation_warned (fst (snd (make_legacy_case_fn name fx (p, w))))
       = insert name (deprecation_warned p)
   \<and> warnings_issued (fst (snd (make_legacy_case_fn name fx (p, w))))
       = warnings_issued p
         @ (if name \<in> deprecation_warned p then [] else [DeprecationWarning name])
   \<and> (\<forall>w'. warnings_issued
              (fst (snd (make_legacy_case_fn name fx
                           (fst (snd (make_legacy_case_fn name fx (p, w))), w'))))
            = warnings_issued (fst (snd (make_legacy_case_fn name fx (p, w)))))"
  by (auto simp: make_legacy_case_fn_def Let_def)

section \<open>Properties of the case table\<close>

lemma merge_first_seen_append:
  "merge_first_seen (xs @ ys) result = merge_first_seen ys (merge_first_seen xs result)"
  by (induction xs arbitrary: result) auto

lemma map_of_merge_first_seen_at:
  "map_of (merge_first_seen es result) x =
     (case map_of result x of None \<Rightarrow> map_of es x | Some v \<Rightarrow> Some v)"
proof (induction es arbitrary: result)
  case Nil
  then show ?case by (simp split: option.splits)
next
  case (Cons e es)
  obtain k v where e: "e = (k, v)" by (cases e)
  show ?case
    unfolding e using Cons.IH [of "AList.update k v result"] Cons.IH [of result]
    by (auto simp: update_conv' split: option.splits)
qed

lemma map_of_merge_first_seen:
  "map_of (merge_first_seen es result) = map_of (result @ es)"
  by (rule ext) (simp add: map_of_merge_first_seen_at map_add_def split: option.splits)

lemma distinct_merge_first_seen:
  "distinct (map fst result) \<Longrightarrow> distinct (map fst (merge_first_seen es result))"
  by (induction es arbitrary: result) (auto simp: distinct_update)

lemma add_cached_cases_merge:
  "add_cached_cases names result = merge_first_seen (map (\<lambda>n. (n, None, [])) names) result"
  by (induction names arbitrary: result) auto

lemma split_length: "CHR ''/'' \<in> set r \<Longrightarrow> Suc 0 < length (split CHR ''/'' r)"
proof -
  assume "CHR ''/'' \<in> set r"
  then obtain a b where "r = a @ CHR ''/'' # b" by (auto dest: split_list)
  then have "split CHR ''/'' r = split CHR ''/'' a @ split CHR ''/'' b"
    by (simp add: split_append)
  moreover have "length (split CHR ''/'' a) \<ge> 1" "length (split CHR ''/'' b) \<ge> 1"
    using split_not_Nil by (simp_all add: Suc_leI)
  ultimately show ?thesis by simp
qed

lemma add_remote_cases_merge:
  "add_remote_cases rs result =
     merge_first_seen
       (map (\<lambda>r. (remote_case_name r,
                   (if CHR ''/'' \<in> set r then Some (hd (split CHR ''/'' r)) else None), []))
            rs) result"
  by (induction rs arbitrary: result)
     (auto simp: Let_def remote_case_name_def contains_char split_length)

lemma scan_case_dirs_merge:
  "scan_case_dirs w coll_dir ds result =
     merge_first_seen
       (map (\<lambda>case_dir. (path_name case_dir, (Some (path_name coll_dir), [])))
            (filter (is_dir w) ds)) result"
  by (induction ds arbitrary: result) auto

lemma scan_collections_merge:
  "scan_collections w cds result =
     merge_first_seen
       (concat (map (\<lambda>coll_dir.
                    map (\<lambda>case_dir. (path_name case_dir, (Some (path_name coll_dir), [])))
                        (filter (is_dir w) (iterdir w coll_dir)))
                 (filter (\<lambda>d. is_dir w d \<and> \<not> startswith (path_name d) ''.'') cds)))
       result"
  by (induction cds arbitrary: result)
     (auto simp: scan_case_dirs_merge merge_first_seen_append)

lemma map_of_scan_manifests:
  "map_of (scan_manifests w mps result) =
     map_of (rev (map (manifest_entry w)
                   (filter (\<lambda>mp. \<not> startswith (path_name (path_parent mp)) ''.'') mps))
             @ result)"
proof (induction mps arbitrary: result)
  case Nil
  then show ?case by simp
next
  case (Cons mp mps)
  show ?case
  proof (cases "startswith (path_name (path_parent mp)) ''.''")
    case True
    with Cons.IH show ?thesis by (simp add: Let_def)
  next
    case False
    with Cons.IH show ?thesis
      by (simp add: Let_def manifest_entry_def update_conv' fun_eq_iff map_add_def
               split: option.splits)
  qed
qed

lemma distinct_scan_manifests:
  "distinct (map fst result) \<Longrightarrow> distinct (map fst (scan_manifests w mps result))"
  by (induction mps arbitrary: result) (auto simp: Let_def distinct_update)

lemma distinct_case_table: "distinct (map fst (case_table w))"
  by (simp add: case_table_def add_cached_cases_merge add_remote_cases_merge
      scan_collections_merge distinct_merge_first_seen distinct_scan_manifests)

lemma map_of_case_table: "map_of (case_table w) = merged_cases w"
  by (simp add: case_table_def merged_cases_def add_cached_cases_merge
      add_remote_cases_merge scan_collections_merge map_of_merge_first_seen
      map_of_scan_manifests manifest_entries_def directory_entries_def remote_entries_def
      cached_entries_def)

lemma sort_distinct_set:
  fixes xs :: "'a::linorder list"
  shows "distinct xs \<Longrightarrow> sort xs = sorted_list_of_set (set xs)"
  by (simp add: sorted_list_of_set_sort_remdups distinct_remdups_id)

lemma map_of_rev_distinct:
  "distinct (map fst xs) \<Longrightarrow> map_of (rev xs) = map_of xs"
  by (simp add: distinct_map map_of_inject_set)

text \<open>
  The listing is the sorted, duplicate-free list of the names that the merged table maps to
  an entry passing both filters; when no two scanned manifests share a case name, the first
  entry seen of every name is the one in the table.
\<close>

lemma cases_sorted_over_merged_table:
  "cases w cf tf = sorted_list_of_set {n. \<exists>v. merged_cases w n = Some v \<and> passes_filters cf tf v}
   \<and> sorted (cases w cf tf) \<and> distinct (cases w cf tf)
   \<and> (distinct (map fst (manifest_entries w)) \<longrightarrow>
        merged_cases w =
          map_of ((if is_dir w (CASES_DIR w)
                   then manifest_entries w @ directory_entries w else [])
                  @ remote_entries w @ cached_entries w))"
proof -
  let ?kept = "filter (\<lambda>kv. passes_filters cf tf (snd kv)) (case_table w)"
  have d: "distinct (map fst ?kept)"
    using distinct_case_table [of w] by (simp add: distinct_map_filter)
  have s: "set (map fst ?kept) = {n. \<exists>v. merged_cases w n = Some v \<and> passes_filters cf tf v}"
    using distinct_case_table [of w]
    by (force simp: map_of_case_table [symmetric])
  have a: "cases w cf tf
           = sorted_list_of_set {n. \<exists>v. merged_cases w n = Some v \<and> passes_filters cf tf v}"
    unfolding cases_def using sort_distinct_set [OF d] s by simp
  have b: "sorted (cases w cf tf)" by (simp add: cases_def)
  have c: "distinct (cases w cf tf)" using d by (simp add: cases_def)
  have e: "distinct (map fst (manifest_entries w)) \<longrightarrow>
        merged_cases w =
          map_of ((if is_dir w (CASES_DIR w)
                   then manifest_entries w @ directory_entries w else [])
                  @ remote_entries w @ cached_entries w)"
    by (simp add: merged_cases_def map_of_rev_distinct)
  from a b c e show ?thesis by blast
qed

section \<open>Properties of the safe-subpath test\<close>

text \<open>
  What the handler of \<open>is_safe_subpath\<close> does with the outcome of the two resolutions:
  true exactly when both return and the resolved parent is the resolved child or one of its
  parents; false when one raises a \<open>ValueError\<close> or an \<open>OSError\<close>; and the exception
  itself when one raises anything else.
\<close>

lemma is_safe_subpath_handler:
  "(is_safe_subpath w child parent = Inr True \<longleftrightarrow>
      (\<exists>rc rp. resolve w child = Inr rc \<and> resolve w parent = Inr rp
               \<and> is_relative_to rc rp))
   \<and> (\<forall>e. (resolve w child = Inl e
            \<or> (\<exists>rc. resolve w child = Inr rc \<and> resolve w parent = Inl e))
          \<and> (exn_cls e = ValueError \<or> is_OSError (exn_cls e))
        \<longrightarrow> is_safe_subpath w child parent = Inr False)
   \<and> (\<forall>e. is_safe_subpath w child parent = Inl e \<longleftrightarrow>
          (resolve w child = Inl e
           \<or> (\<exists>rc. resolve w child = Inr rc \<and> resolve w parent = Inl e))
          \<and> exn_cls e \<noteq> ValueError \<and> \<not> is_OSError (exn_cls e))"
  by (auto simp: is_safe_subpath_def resolved_within_def split: sum.splits)

section \<open>Claims\<close>

text \<open>
  C1 (as amended). For a bare name (no separator, not an existing directory) whose global
  search returns and finds two or more matches, bundled and remote together, \<open>load\<close>
  raises a \<open>ValueError\<close> and leaves the world as it was: it loads none of the
  candidates. When at most one registry entry has the name, the error is the ambiguous-case
  error of \<open>load\<close> and its message lists the \<open>source:collection\<close> pair of every
  match. When two or more registry entries have the name, the error is the one that the
  registry search raises, and its message lists those registry paths.
\<close>

theorem load_ambiguous_name:
  assumes "\<not> is_dir w (Path_of n)" and "CHR ''/'' \<notin> set n"
      and "find_case_in_collections w n = Inr case_dirs"
      and "2 \<le> length case_dirs + length (remote_hits w n)"
  shows "(\<exists>m. load fx w n = (Inl (Exn ValueError m), w))
       \<and> (length (remote_hits w n) \<le> 1 \<longrightarrow>
            load fx w n =
              (Inl (Exn ValueError
                     [Lit ''Ambiguous case name '', Quoted n,
                      Lit '' found in multiple locations: '',
                      StrList (found_sources w case_dirs n),
                      Lit ''. Use 'collection/case' format to specify.'']), w)
            \<and> length (found_sources w case_dirs n)
                = length case_dirs + length (remote_hits w n))
       \<and> (2 \<le> length (remote_hits w n) \<longrightarrow>
            load fx w n =
              (Inl (Exn ValueError
                     [Lit ''Ambiguous remote case '', Quoted n,
                      Lit '' found in multiple collections: '',
                      StrList (remote_hits w n)]), w))"
proof -
  have l: "load fx w n = load_by_name fx w n"
    using assms(1,2) by (rule load_bare_name)
  have v: "validate_path_component n = Inr ()"
    using assms(3) by (rule find_case_valid_name)
  have few: "load_by_name fx w n =
              (Inl (Exn ValueError
                     [Lit ''Ambiguous case name '', Quoted n,
                      Lit '' found in multiple locations: '',
                      StrList (found_sources w case_dirs n),
                      Lit ''. Use 'collection/case' format to specify.'']), w)"
    if le: "length (remote_hits w n) \<le> 1"
  proof -
    let ?rp = "case remote_hits w n of [] \<Rightarrow> None | r # _ \<Rightarrow> Some r"
    have fr: "find_remote_case_by_name w n = Inr ?rp"
      using le by (cases "remote_hits w n" rule: remdups_adj.cases)
                  (simp_all add: find_remote_case_by_name_cases)
    have len: "length (bundled_matches w case_dirs @ remote_matches ?rp)
               = length case_dirs + length (remote_hits w n)"
      using source_labels_found [OF v le, of case_dirs, THEN arg_cong, of length]
      by (simp add: found_sources_def)
    show ?thesis
      using assms(3,4) fr len source_labels_found [OF v le, of case_dirs]
      by (simp add: load_by_name_def Let_def)
  qed
  have many: "load_by_name fx w n =
              (Inl (Exn ValueError
                     [Lit ''Ambiguous remote case '', Quoted n,
                      Lit '' found in multiple collections: '',
                      StrList (remote_hits w n)]), w)"
    if "2 \<le> length (remote_hits w n)"
    using that assms(3)
    by (cases "remote_hits w n" rule: remdups_adj.cases)
       (simp_all add: load_by_name_def find_remote_case_by_name_cases)
  have cnt: "length (found_sources w case_dirs n)
                = length case_dirs + length (remote_hits w n)"
    by (simp add: found_sources_def)
  have "\<exists>m. load fx w n = (Inl (Exn ValueError m), w)"
  proof (cases "length (remote_hits w n) \<le> 1")
    case True
    then show ?thesis using few l by simp
  next
    case False
    then have "2 \<le> length (remote_hits w n)" by simp
    then show ?thesis using many l by simp
  qed
  then show ?thesis using few many l cnt by simp
qed


theorem load_ambiguous_name_witness:
  "load example_effects ambiguous_world ''ieee14'' =
     (Inl (Exn ValueError
            [Lit ''Ambiguous case name '', Quoted ''ieee14'',
             Lit '' found in multiple locations: '',
             StrList [''bundled:ieee-transmission'', ''bundled:test'', ''remote:community''],
             Lit ''. Use 'collection/case' format to specify.'']), ambiguous_world)"
proof -
  let ?dirs = "[Path ''/'' [''pkg'', ''cases'', ''ieee-transmission'', ''ieee14''],
                Path ''/'' [''pkg'', ''cases'', ''test'', ''ieee14'']]"
  have h1: "\<not> is_dir ambiguous_world (Path_of ''ieee14'')" by code_simp
  have h2: "CHR ''/'' \<notin> set ''ieee14''" by simp
  have h3: "find_case_in_collections ambiguous_world ''ieee14'' = Inr ?dirs" by code_simp
  have r: "remote_hits ambiguous_world ''ieee14'' = [''community/ieee14'']" by code_simp
  have h4: "2 \<le> length ?dirs + length (remote_hits ambiguous_world ''ieee14'')"
    by (simp add: r)
  have s: "found_sources ambiguous_world ?dirs ''ieee14''
           = [''bundled:ieee-transmission'', ''bundled:test'', ''remote:community'']"
    by code_simp
  show ?thesis
    using load_ambiguous_name [OF h1 h2 h3 h4, of example_effects] by (simp add: r s)
qed

text \<open>
  The claim as it was stated fails where the registry has the name twice: the search finds
  one bundled and two remote matches, and the message of the error lists the two registry
  paths, not the three \<open>source:collection\<close> pairs.
\<close>

theorem load_ambiguous_remote_counterexample:
  "\<not> is_dir remote_twice_world (Path_of ''ieee14'')
   \<and> find_case_in_collections remote_twice_world ''ieee14''
       = Inr [Path ''/'' [''pkg'', ''cases'', ''ieee-transmission'', ''ieee14'']]
   \<and> remote_hits remote_twice_world ''ieee14'' = [''r1/ieee14'', ''r2/ieee14'']
   \<and> fst (load example_effects remote_twice_world ''ieee14'') =
       Inl (Exn ValueError
             [Lit ''Ambiguous remote case '', Quoted ''ieee14'',
              Lit '' found in multiple collections: '',
              StrList [''r1/ieee14'', ''r2/ieee14'']])"
  by code_simp

text \<open>
  C2. The path-component validator raises exactly when its argument is empty, contains
  \<open>..\<close>, contains a path separator (\<open>/\<close> or a backslash), or is an absolute path or
  drive-letter pattern; every error it raises is a \<open>ValueError\<close>; it rejects
  \<open>../etc\<close>, \<open>a/b\<close> and \<open>/abs\<close> and accepts \<open>ieee14\<close>.
\<close>

theorem validate_path_component_raises_iff:
  "((\<exists>e. validate_path_component s = Inl e) \<longleftrightarrow> unsafe_component s)
   \<and> ((\<exists>m. validate_path_component s = Inl (Exn ValueError m)) \<longleftrightarrow> unsafe_component s)
   \<and> (validate_path_component s = Inr () \<longleftrightarrow> \<not> unsafe_component s)
   \<and> (\<exists>m. validate_path_component ''../etc'' = Inl (Exn ValueError m))
   \<and> (\<exists>m. validate_path_component ''a/b'' = Inl (Exn ValueError m))
   \<and> (\<exists>m. validate_path_component ''/abs'' = Inl (Exn ValueError m))
   \<and> validate_path_component ''ieee14'' = Inr ()"
proof -
  have a: "(\<exists>e. validate_path_component s = Inl e) \<longleftrightarrow> unsafe_component s"
    unfolding unsafe_component_iff by (simp add: validate_path_component_def)
  have b: "(\<exists>m. validate_path_component s = Inl (Exn ValueError m)) \<longleftrightarrow> unsafe_component s"
    unfolding unsafe_component_iff by (simp add: validate_path_component_def)
  have c: "validate_path_component s = Inr () \<longleftrightarrow> \<not> unsafe_component s"
    by (rule validate_ok_iff)
  have d: "\<exists>m. validate_path_component ''../etc'' = Inl (Exn ValueError m)"
    by (simp add: validate_path_component_def startswith_def)
  have e: "\<exists>m. validate_path_component ''a/b'' = Inl (Exn ValueError m)"
    by (simp add: validate_path_component_def startswith_def)
  have f: "\<exists>m. validate_path_component ''/abs'' = Inl (Exn ValueError m)"
    by (simp add: validate_path_component_def startswith_def)
  have g: "validate_path_component ''ieee14'' = Inr ()"
    by (simp add: validate_path_component_def startswith_def backslash_def)
  from a b c d e f g show ?thesis by blast
qed

text \<open>
  C3. When the manifest has no entry for the requested format, version and variant (and,
  when neither a version nor a variant was requested, no default entry for the format),
  the file locator raises \<open>FileNotFoundError\<close> if and only if \<open>required\<close> is true, and
  returns \<open>None\<close> when it is false. The message ends with the available variants of
  the format when a variant was requested, and with the available formats of the bundle
  otherwise (a version was requested, or neither); every listed name occurs in it.
\<close>

theorem file_not_found:
  assumes "file_entry mf (bundle_manifest c) (normalize_format format) fv v = None"
      and "fv = None \<and> v = None \<longrightarrow>
             get_default_file mf (bundle_manifest c) (normalize_format format) = None"
  shows "((\<exists>m. get_file mf c format fv v required = Inl (Exn FileNotFoundError m))
            \<longleftrightarrow> required)
       \<and> ((\<exists>e. get_file mf c format fv v required = Inl e) \<longleftrightarrow> required)
       \<and> (get_file mf c format fv v required = Inr None \<longleftrightarrow> \<not> required)
       \<and> (required \<and> v \<noteq> None \<longrightarrow>
            (\<exists>m. get_file mf c format fv v required =
                   Inl (Exn FileNotFoundError
                         (m @ [Lit ''. Available variants: '',
                               Str (join '', '' (variants mf c format))])))
            \<and> (\<forall>x \<in> set (variants mf c format).
                  \<exists>a b. join '', '' (variants mf c format) = a @ x @ b))
       \<and> (required \<and> v = None \<longrightarrow>
            (\<exists>m. get_file mf c format fv v required =
                   Inl (Exn FileNotFoundError
                         (m @ [Lit ''. Available formats: '',
                               Str (join '', '' (formats mf c))])))
            \<and> (\<forall>x \<in> set (formats mf c).
                  \<exists>a b. join '', '' (formats mf c) = a @ x @ b))"
proof -
  have "(\<exists>m. get_file mf c format fv v required = Inl (Exn FileNotFoundError m))
          \<longleftrightarrow> required"
    using assms by (cases v; cases fv; cases required) (simp_all add: get_file_def Let_def)
  moreover have "(\<exists>e. get_file mf c format fv v required = Inl e) \<longleftrightarrow> required"
    using assms by (cases v; cases fv; cases required) (simp_all add: get_file_def Let_def)
  moreover have "get_file mf c format fv v required = Inr None \<longleftrightarrow> \<not> required"
    using assms by (cases v; cases fv; cases required) (simp_all add: get_file_def Let_def)
  moreover have "required \<and> v \<noteq> None \<longrightarrow>
      (\<exists>m. get_file mf c format fv v required =
             Inl (Exn FileNotFoundError
                   (m @ [Lit ''. Available variants: '',
                         Str (join '', '' (variants mf c format))])))"
    using assms
    by (cases v; cases fv; cases required)
       (simp_all add: get_file_def variants_def normalize_format_idem Let_def)
  moreover have "required \<and> v = None \<longrightarrow>
      (\<exists>m. get_file mf c format fv v required =
             Inl (Exn FileNotFoundError
                   (m @ [Lit ''. Available formats: '',
                         Str (join '', '' (formats mf c))])))"
    using assms by (cases v; cases fv; cases required) (simp_all add: get_file_def Let_def)
  ultimately show ?thesis
    using join_mentions by blast
qed

theorem file_not_found_witness:
  "get_file spec_manifest_fns ieee14_bundle ''psse_dyr'' None (Some ''gentpj'') False = Inr None
   \<and> get_file spec_manifest_fns ieee14_bundle ''psse_dyr'' None (Some ''gentpj'') True =
       Inl (Exn FileNotFoundError
             [Lit ''File not found for format '', Quoted ''psse_dyr'',
              Lit '' with variant '', Quoted ''gentpj'', Lit '' in case '',
              Quoted ''ieee14'', Lit ''. Available variants: '', Str ''genrou''])
   \<and> (\<exists>m. get_file spec_manifest_fns ieee14_bundle ''matpower'' None None True =
            Inl (Exn FileNotFoundError
                  (m @ [Lit ''. Available formats: '', Str ''psse_raw, psse_dyr''])))"
proof -
  have h1: "file_entry spec_manifest_fns (bundle_manifest ieee14_bundle)
              (normalize_format ''psse_dyr'') None (Some ''gentpj'') = None"
    by (simp add: spec_manifest_fns_def spec_file_entry_def ieee14_bundle_def
        ieee14_manifest_def normalize_format_def)
  have h2: "(None :: string option) = None \<and> Some ''gentpj'' = None \<longrightarrow>
              get_default_file spec_manifest_fns (bundle_manifest ieee14_bundle)
                (normalize_format ''psse_dyr'') = None"
    by simp
  have g1: "file_entry spec_manifest_fns (bundle_manifest ieee14_bundle)
              (normalize_format ''matpower'') None None = None"
    by (simp add: spec_manifest_fns_def spec_file_entry_def ieee14_bundle_def
        ieee14_manifest_def normalize_format_def)
  have g2: "(None :: string option) = None \<and> (None :: string option) = None \<longrightarrow>
              get_default_file spec_manifest_fns (bundle_manifest ieee14_bundle)
                (normalize_format ''matpower'') = None"
    by (simp add: spec_manifest_fns_def spec_get_default_file_def ieee14_bundle_def
        ieee14_manifest_def normalize_format_def)
  have v: "variants spec_manifest_fns ieee14_bundle ''psse_dyr'' = [''genrou'']"
    by (simp add: variants_def spec_manifest_fns_def spec_variants_def ieee14_bundle_def
        ieee14_manifest_def normalize_format_def)
  have f: "formats spec_manifest_fns ieee14_bundle = [''psse_raw'', ''psse_dyr'']"
    by (simp add: formats_def spec_manifest_fns_def spec_formats_def ieee14_bundle_def
        ieee14_manifest_def)
  have n: "bundle_name ieee14_bundle = ''ieee14''"
    by (simp add: ieee14_bundle_def)
  have a: "get_file spec_manifest_fns ieee14_bundle ''psse_dyr'' None (Some ''gentpj'') False
             = Inr None"
    using file_not_found [OF h1 h2, where required = False] by simp
  have b: "get_file spec_manifest_fns ieee14_bundle ''psse_dyr'' None (Some ''gentpj'') True =
       Inl (Exn FileNotFoundError
             [Lit ''File not found for format '', Quoted ''psse_dyr'',
              Lit '' with variant '', Quoted ''gentpj'', Lit '' in case '',
              Quoted ''ieee14'', Lit ''. Available variants: '', Str ''genrou''])"
    using file_not_found [OF h1 h2, where required = True] h1 n
    by (simp add: get_file_def Let_def v normalize_format_def)
  have c: "\<exists>m. get_file spec_manifest_fns ieee14_bundle ''matpower'' None None True =
            Inl (Exn FileNotFoundError
                  (m @ [Lit ''. Available formats: '', Str ''psse_raw, psse_dyr'']))"
    using file_not_found [OF g1 g2, where required = True] by (simp add: f)
  from a b c show ?thesis by blast
qed

text \<open>
  C4. For every bundle, version, variant and \<open>required\<close> flag, the file locator applied
  to \<open>raw\<close> gives what it gives for \<open>psse_raw\<close>, and applied to \<open>dyr\<close> what it
  gives for \<open>psse_dyr\<close>: the same path, the same \<open>None\<close>, or an exception of the same
  class whose message is the same after the two pieces that repeat the format as the
  caller wrote it. Every other format is passed through unchanged.
\<close>

theorem file_alias_normalization:
  "map_sum (\<lambda>e. (exn_cls e, drop 2 (exn_msg e))) id
       (get_file mf c ''raw'' fv v required)
     = map_sum (\<lambda>e. (exn_cls e, drop 2 (exn_msg e))) id
         (get_file mf c ''psse_raw'' fv v required)
   \<and> map_sum (\<lambda>e. (exn_cls e, drop 2 (exn_msg e))) id
       (get_file mf c ''dyr'' fv v required)
     = map_sum (\<lambda>e. (exn_cls e, drop 2 (exn_msg e))) id
         (get_file mf c ''psse_dyr'' fv v required)
   \<and> normalize_format ''raw'' = ''psse_raw'' \<and> normalize_format ''dyr'' = ''psse_dyr''
   \<and> (format \<noteq> ''raw'' \<and> format \<noteq> ''dyr'' \<longrightarrow> normalize_format format = format)"
  by (cases v; cases fv; cases required)
     (simp_all add: get_file_def normalize_format_def Let_def split: option.splits)

theorem file_alias_normalization_witness:
  "get_file spec_manifest_fns ieee14_bundle ''raw'' None None True
     = Inr (Some ''/pkg/cases/ieee-transmission/ieee14/ieee14.raw'')
   \<and> get_file spec_manifest_fns ieee14_bundle ''psse_raw'' None None True
     = Inr (Some ''/pkg/cases/ieee-transmission/ieee14/ieee14.raw'')
   \<and> normalize_format ''matpower'' = ''matpower''"
proof -
  have a: "get_file spec_manifest_fns ieee14_bundle ''psse_raw'' None None True
             = Inr (Some ''/pkg/cases/ieee-transmission/ieee14/ieee14.raw'')"
    by (simp add: get_file_def spec_manifest_fns_def spec_file_entry_def ieee14_bundle_def
        ieee14_manifest_def normalize_format_def Let_def Path_of_def truediv_def
        path_str_def leading_slashes_def)
  have b: "get_file spec_manifest_fns ieee14_bundle ''raw'' None None True
             = Inr (Some ''/pkg/cases/ieee-transmission/ieee14/ieee14.raw'')"
    using file_alias_normalization
            [of spec_manifest_fns ieee14_bundle None None True "''matpower''"] a
    by (cases "get_file spec_manifest_fns ieee14_bundle ''raw'' None None True") simp_all
  have c: "normalize_format ''matpower'' = ''matpower''"
    using file_alias_normalization
            [of spec_manifest_fns ieee14_bundle None None True "''matpower''"]
    by simp
  from a b c show ?thesis by blast
qed

text \<open>
  C5. The listing merges its sources by case name, and the first entry seen of a name is
  the one that should count. The loops over the directories, the registry entries and the
  cached cases keep an entry that is already there; the loop over the scanned manifests
  assigns without that test. On two collections \<open>a\<close> and \<open>b\<close> that each hold a case
  \<open>x\<close> with a manifest, the manifest of \<open>a\<close> scanned first, the listing puts \<open>x\<close>
  in collection \<open>b\<close> and not in \<open>a\<close>. On the same two collections without manifests
  the directory loop keeps the first, and \<open>x\<close> is listed in \<open>a\<close>.
\<close>

theorem cases_manifest_scan_keeps_last:
  "manifest_entries twin_world
     = [(''x'', Some ''a'', [''benchmark'']), (''x'', Some ''b'', [''benchmark''])]
   \<and> cases twin_world (Some ''a'') None = []
   \<and> cases twin_world (Some ''b'') None = [''x'']
   \<and> cases twin_dir_world (Some ''a'') None = [''x'']
   \<and> cases twin_dir_world (Some ''b'') None = []"
  by code_simp

text \<open>
  C6. When the case loads and \<open>destination/case_name\<close> exists: with \<open>overwrite\<close> false,
  \<open>export_case\<close> raises \<open>FileExistsError\<close> and the world is the one that the load
  left, so nothing was removed or copied; with \<open>overwrite\<close> true, the copy runs on the
  world that the removal of the destination left, and only when the walk over the source
  and that removal raised nothing.
\<close>

theorem export_case_existing_destination:
  assumes "load fx w case_name = (Inr c, w1)"
      and "path_exists w1 (truediv (absolute w1 (Path_of dest)) (bundle_name c))"
  shows "export_case fx w case_name dest False =
           (Inl (Exn FileExistsError
                  [Lit ''Directory exists: '',
                   Str (path_str (truediv (absolute w1 (Path_of dest)) (bundle_name c))),
                   Lit [CHR 0x0A],
                   Lit ''Use overwrite=True to replace existing directory'']), w1)
       \<and> export_case fx w case_name dest True =
           (case walk_sizes w1 (Path_of (bundle_dir c)) of
              Inl e \<Rightarrow> (Inl e, w1)
            | Inr sizes \<Rightarrow>
                (case rmtree fx (truediv (absolute w1 (Path_of dest)) (bundle_name c)) w1 of
                   (Some e, w2) \<Rightarrow> (Inl e, w2)
                 | (None, w2) \<Rightarrow>
                     (case copytree fx (Path_of (bundle_dir c))
                             (truediv (absolute w1 (Path_of dest)) (bundle_name c)) w2 of
                        (Some e, w3) \<Rightarrow> (Inl e, w3)
                      | (None, w3) \<Rightarrow>
                          (Inr (path_str (truediv (absolute w1 (Path_of dest))
                                            (bundle_name c))), w3))))"
  using assms by (simp add: export_case_def Let_def)

theorem export_case_existing_destination_witness:
  "export_case example_effects bundled_world ''ieee14'' ''/out'' False =
     (Inl (Exn FileExistsError
            [Lit ''Directory exists: '', Str ''/out/ieee14'', Lit [CHR 0x0A],
             Lit ''Use overwrite=True to replace existing directory'']), bundled_world)
   \<and> fst (export_case example_effects bundled_world ''ieee14'' ''/out'' True)
       = Inr ''/out/ieee14''
   \<and> \<not> path_exists (snd (export_case example_effects bundled_world ''ieee14'' ''/out'' True))
         (Path ''/'' [''out'', ''ieee14'', ''old.txt''])
   \<and> path_exists (snd (export_case example_effects bundled_world ''ieee14'' ''/out'' True))
       (Path ''/'' [''out'', ''ieee14'', ''ieee14.raw''])"
proof -
  have f: "fst (load example_effects bundled_world ''ieee14'') = Inr ieee14_bundle"
    by code_simp
  have "find_remote_case_by_name bundled_world ''ieee14'' = Inr None" by code_simp
  then have "snd (load_by_name example_effects bundled_world ''ieee14'') = bundled_world"
    by (rule load_by_name_world)
  moreover have "\<not> is_dir bundled_world (Path_of ''ieee14'')" "CHR ''/'' \<notin> set ''ieee14''"
    by code_simp+
  ultimately have s: "snd (load example_effects bundled_world ''ieee14'') = bundled_world"
    by (simp add: load_bare_name)
  from f s have h1: "load example_effects bundled_world ''ieee14''
                       = (Inr ieee14_bundle, bundled_world)"
    by (simp add: prod_eq_iff)
  have d: "truediv (absolute bundled_world (Path_of ''/out'')) (bundle_name ieee14_bundle)
           = Path ''/'' [''out'', ''ieee14'']"
    by code_simp
  have h2: "path_exists bundled_world
              (truediv (absolute bundled_world (Path_of ''/out'')) (bundle_name ieee14_bundle))"
    unfolding d by code_simp
  note t = export_case_existing_destination [OF h1 h2]
  have a: "export_case example_effects bundled_world ''ieee14'' ''/out'' False =
     (Inl (Exn FileExistsError
            [Lit ''Directory exists: '', Str ''/out/ieee14'', Lit [CHR 0x0A],
             Lit ''Use overwrite=True to replace existing directory'']), bundled_world)"
    using t by (simp add: d path_str_def)
  have b: "fst (export_case example_effects bundled_world ''ieee14'' ''/out'' True)
             = Inr ''/out/ieee14''"
    by code_simp
  have c: "\<not> path_exists
               (snd (export_case example_effects bundled_world ''ieee14'' ''/out'' True))
               (Path ''/'' [''out'', ''ieee14'', ''old.txt''])"
    by code_simp
  have e: "path_exists
               (snd (export_case example_effects bundled_world ''ieee14'' ''/out'' True))
               (Path ''/'' [''out'', ''ieee14'', ''ieee14.raw''])"
    by code_simp
  from a b c e show ?thesis by blast
qed




text \<open>
  C8. \<open>is_safe_subpath\<close> should answer false, and never raise, when a path cannot be
  resolved. Its handler catches \<open>ValueError\<close> and \<open>OSError\<close> only. For a link that
  points to itself \<open>Path.resolve()\<close> raises \<open>RuntimeError\<close> before Python 3.13, and
  the function raises it instead of answering false. For a link inside the root that points
  outside of it, the function answers false.
\<close>

theorem is_safe_subpath_symlink_loop_raises:
  "is_safe_subpath loop_world (Path ''/'' [''root'', ''loop'']) (Path ''/'' [''root''])
     = Inl (Exn RuntimeError [Lit ''Symlink loop from '', Quoted ''/root/loop''])
   \<and> is_safe_subpath symlink_world (Path ''/'' [''root'', ''link'']) (Path ''/'' [''root''])
     = Inr False"
  by (simp add: is_safe_subpath_def resolved_within_def loop_world_def symlink_world_def
      empty_world_def is_relative_to_def)

text \<open>
  C9. Every legacy accessor returns what \<open>load\<close> returns for its case name and leaves
  the world as \<open>load\<close> leaves it. Besides, it records the name as warned and issues a
  \<open>DeprecationWarning\<close> when the name was not yet recorded, so once per name and
  process: a second call issues none.
\<close>

theorem legacy_accessor_is_load:
  "\<forall>(name, fn) \<in> set legacy_accessors.
     fst (fn fx (p, w)) = fst (load fx w name)
     \<and> snd (snd (fn fx (p, w))) = snd (load fx w name)
     \<and> deprecation_warned (fst (snd (fn fx (p, w)))) = insert name (deprecation_warned p)
     \<and> warnings_issued (fst (snd (fn fx (p, w))))
         = warnings_issued p
           @ (if name \<in> deprecation_warned p then [] else [DeprecationWarning name])
     \<and> (\<forall>w'. warnings_issued (fst (snd (fn fx (fst (snd (fn fx (p, w))), w'))))
              = warnings_issued (fst (snd (fn fx (p, w)))))"
proof -
  have "\<forall>(name, fn) \<in> set legacy_accessors. fn = make_legacy_case_fn name"
    by (simp add: legacy_accessors_def legacy_defs)
  then show ?thesis
    using make_legacy_case_fn_load by fastforce
qed

theorem legacy_accessor_is_load_witness:
  "fst (ieee14 example_effects
          (\<lparr>deprecation_warned = {}, warnings_issued = []\<rparr>, bundled_world))
     = Inr ieee14_bundle
   \<and> warnings_issued (fst (snd (ieee14 example_effects
          (\<lparr>deprecation_warned = {}, warnings_issued = []\<rparr>, bundled_world))))
     = [DeprecationWarning ''ieee14'']
   \<and> warnings_issued (fst (snd (ieee14 example_effects
          (\<lparr>deprecation_warned = {''ieee14''},
            warnings_issued = [DeprecationWarning ''ieee14'']\<rparr>, bundled_world))))
     = [DeprecationWarning ''ieee14'']"
proof -
  have m: "(''ieee14'', ieee14) \<in> set legacy_accessors"
    by (simp add: legacy_accessors_def)
  have l: "fst (load example_effects bundled_world ''ieee14'') = Inr ieee14_bundle"
    by code_simp
  show ?thesis
    using legacy_accessor_is_load
            [of example_effects "\<lparr>deprecation_warned = {}, warnings_issued = []\<rparr>"
                bundled_world]
          legacy_accessor_is_load
            [of example_effects
                "\<lparr>deprecation_warned = {''ieee14''},
                  warnings_issued = [DeprecationWarning ''ieee14'']\<rparr>"
                bundled_world]
          m l
    by fastforce
qed

text \<open>
  C10. For a bundle whose manifest has no collection, or an empty one, the
  \<open>collection\<close> property is the name of the parent of the bundle's directory, and
  \<open>None\<close> when that name is \<open>cases\<close>. In particular, for a directory
  \<open>.../coll/name\<close> it is \<open>coll\<close>, and \<open>None\<close> when \<open>coll\<close> is \<open>cases\<close>.
\<close>

theorem collection_inferred_from_layout:
  assumes "manifest_collection (bundle_manifest b) = None
           \<or> manifest_collection (bundle_manifest b) = Some []"
  shows "collection b =
           (if path_name (path_parent (Path_of (bundle_dir b))) = ''cases'' then None
            else Some (path_name (path_parent (Path_of (bundle_dir b)))))
       \<and> (\<forall>pre coll nm.
            plain_segment coll \<and> plain_segment nm
            \<and> bundle_dir b = pre @ ''/'' @ coll @ ''/'' @ nm
            \<longrightarrow> collection b = (if coll = ''cases'' then None else Some coll))"
proof -
  have a: "collection b =
           (if path_name (path_parent (Path_of (bundle_dir b))) = ''cases'' then None
            else Some (path_name (path_parent (Path_of (bundle_dir b)))))"
    using assms by (auto simp: collection_def Let_def)
  have b: "collection b = (if coll = ''cases'' then None else Some coll)"
    if "plain_segment coll" "plain_segment nm"
       "bundle_dir b = pre @ ''/'' @ coll @ ''/'' @ nm"
    for pre coll nm
  proof -
    have "path_name (path_parent (Path_of (bundle_dir b))) = coll"
      using that segments_layout [OF that(1,2), of pre]
      by (simp add: path_name_def path_parent_def butlast_append)
    with a show ?thesis by simp
  qed
  from a b show ?thesis by blast
qed

theorem collection_inferred_from_layout_witness:
  "collection ieee14_bundle = Some ''ieee-transmission'' \<and> collection flat_bundle = None"
proof -
  have m: "manifest_collection (bundle_manifest ieee14_bundle) = None
           \<or> manifest_collection (bundle_manifest ieee14_bundle) = Some []"
          "manifest_collection (bundle_manifest flat_bundle) = None
           \<or> manifest_collection (bundle_manifest flat_bundle) = Some []"
    by (simp_all add: ieee14_bundle_def flat_bundle_def ieee14_manifest_def)
  have d: "plain_segment ''ieee-transmission''" "plain_segment ''ieee14''"
          "plain_segment ''cases''" "plain_segment ''case5''"
          "bundle_dir ieee14_bundle = ''/pkg/cases'' @ ''/'' @ ''ieee-transmission'' @ ''/'' @ ''ieee14''"
          "bundle_dir flat_bundle = ''/pkg'' @ ''/'' @ ''cases'' @ ''/'' @ ''case5''"
    by (simp_all add: plain_segment_def ieee14_bundle_def flat_bundle_def)
  have a: "collection ieee14_bundle = Some ''ieee-transmission''"
    using collection_inferred_from_layout [OF m(1)] d(1,2,5) by fastforce
  have b: "collection flat_bundle = None"
    using collection_inferred_from_layout [OF m(2)] d(3,4,6) by fastforce
  from a b show ?thesis by blast
qed

end
